theory Spec2Isabelle
  imports Complex_Main "HOL-Library.Word"
begin

section \<open>Jagoan: notification sensor, webhook server and confirmation bot\<close>

text \<open>
  The repository has two programs. The Android service
  \<^verbatim>\<open>JagoanListenerService.kt\<close> reads bank notifications, extracts an amount,
  suppresses repeats of an amount inside a five second window and posts the amount to
  the server. The Node.js server \<^verbatim>\<open>apps/server/src/index.js\<close> keeps every
  accepted amount in a \<^verbatim>\<open>node-cache\<close> instance, asks the owner over Telegram
  what the expense was for, and writes the answer to Notion.

  Each handler is modelled as a function from the state before the call to the state
  after it and the list of external calls it attempted, in order. The readings of
  the clock, the random suffix of a transaction id and the outcome of every external
  call are parameters. A handler run is taken as one step: the interleaving of two
  asynchronous handlers is outside the model, and so is console logging.
\<close>

subsection \<open>Numbers\<close>

text \<open>
  Kotlin's \<^verbatim>\<open>Double\<close> and JavaScript's numbers are IEEE doubles. A finite double is
  modelled as the rational it denotes. NaN is no value of the model: JSON has no
  literal for it and \<^verbatim>\<open>extractAmount\<close> parses a string of decimal digits.
\<close>

type_synonym double = rat

text \<open>
  A Kotlin \<^verbatim>\<open>Double\<close> that came from a string of digits: a finite double or positive
  infinity.
\<close>

datatype kdouble = Finite double | PosInfinity

text \<open>The number of binary digits of a natural number.\<close>

fun bits :: "nat \<Rightarrow> nat" where
  "bits n = (if n = 0 then 0 else Suc (bits (n div 2)))"

declare bits.simps [simp del]

text \<open>
  The double nearest to a natural number, as \<^verbatim>\<open>Double.parseDouble\<close> rounds: a
  significand of 53 binary digits, a tie going to the even significand, and infinity
  once the rounded value reaches \<open>2 ^ 1024\<close>.
\<close>

definition to_double :: "nat \<Rightarrow> kdouble" where
  "to_double n =
     (let e = bits n - 53;
          q = n div 2 ^ e;
          r = n mod 2 ^ e;
          m = (if 2 ^ e < 2 * r \<or> (2 * r = 2 ^ e \<and> odd q) then q + 1 else q)
      in if 2 ^ 1024 \<le> m * 2 ^ e then PosInfinity else Finite (of_nat (m * 2 ^ e)))"

text \<open>Kotlin's \<^verbatim>\<open>Long\<close>: 64 bits, two's complement, arithmetic wraps.\<close>

type_synonym long = "64 word"

subsection \<open>The sensor: \<^verbatim>\<open>JagoanListenerService.kt\<close>\<close>

definition JAGO_PACKAGE :: string where
  "JAGO_PACKAGE = ''com.jago.digitalBanking''"

definition DEBOUNCE_TIME :: long where
  "DEBOUNCE_TIME = 5000"

text \<open>
  The pattern of \<^verbatim>\<open>extractAmount\<close> is \<^verbatim>\<open>(IDR|Rp)\s*([\d.,]+)\<close>. The two
  classes are read over ASCII: \<^verbatim>\<open>\s\<close> is space, tab, line feed, vertical tab, form
  feed and carriage return, and \<^verbatim>\<open>\d\<close> is a digit from 0 to 9. A string of the model
  is the UTF-8 bytes of the text, so no byte of a character beyond ASCII is in either
  class; a regex engine that reads the classes over Unicode differs on a text with
  other digits or spaces, and such a text is outside the model.
\<close>

definition is_space :: "char \<Rightarrow> bool" where
  "is_space c \<longleftrightarrow> c \<in> set [CHR '' '', CHR 0x09, CHR 0x0A, CHR 0x0B, CHR 0x0C, CHR 0x0D]"

definition is_digit :: "char \<Rightarrow> bool" where
  "is_digit c \<longleftrightarrow> c \<in> set ''0123456789''"

definition is_amount_char :: "char \<Rightarrow> bool" where
  "is_amount_char c \<longleftrightarrow> is_digit c \<or> c = CHR ''.'' \<or> c = CHR '',''"

text \<open>The alternation \<^verbatim>\<open>(IDR|Rp)\<close> at the start of a string: what follows the marker.\<close>

definition strip_marker :: "string \<Rightarrow> string option" where
  "strip_marker s =
     (if take 3 s = ''IDR'' then Some (drop 3 s)
      else if take 2 s = ''Rp'' then Some (drop 2 s)
      else None)"

text \<open>
  The whole pattern anchored at the start of a string; the result is group 2. Both
  quantifiers are greedy. A space is no amount character, so giving back spaces never
  makes a failed match succeed, and the longest run of each class is the only
  candidate.
\<close>

definition match_here :: "string \<Rightarrow> string option" where
  "match_here s =
     (case strip_marker s of
        None \<Rightarrow> None
      | Some r \<Rightarrow>
          (let tok = takeWhile is_amount_char (dropWhile is_space r)
           in if tok = [] then None else Some tok))"

text \<open>\<^verbatim>\<open>pattern.find(text)\<close>: the match at the leftmost position that has one.\<close>

fun find_first :: "string \<Rightarrow> string option" where
  "find_first [] = None"
| "find_first (c # cs) =
     (case match_here (c # cs) of
        Some tok \<Rightarrow> Some tok
      | None \<Rightarrow> find_first cs)"

definition digit_val :: "char \<Rightarrow> nat" where
  "digit_val c = of_char c - 48"

definition decimal_value :: "string \<Rightarrow> nat" where
  "decimal_value ds = foldl (\<lambda>acc c. 10 * acc + digit_val c) 0 ds"

text \<open>
  \<^verbatim>\<open>toDoubleOrNull\<close> on what \<^verbatim>\<open>extractAmount\<close> passes to it. The source calls
  the library function on any string; here it is given for the strings the caller
  can produce, and answers \<open>None\<close> on every other one as well as on the empty string.
\<close>

definition toDoubleOrNull :: "string \<Rightarrow> kdouble option" where
  "toDoubleOrNull s =
     (if s \<noteq> [] \<and> list_all is_digit s then Some (to_double (decimal_value s)) else None)"

text \<open>\<^verbatim>\<open>amountString.replace(".", "").replace(",", "")\<close>\<close>

definition cleanAmount :: "string \<Rightarrow> string" where
  "cleanAmount amountString =
     filter (\<lambda>c. c \<noteq> CHR '','') (filter (\<lambda>c. c \<noteq> CHR ''.'') amountString)"

definition extractAmount :: "string \<Rightarrow> kdouble option" where
  "extractAmount text =
     (case find_first text of
        Some amountString \<Rightarrow> toDoubleOrNull (cleanAmount amountString)
      | None \<Rightarrow> None)"




text \<open>
  The body of \<^verbatim>\<open>if (amount != null)\<close> in \<^verbatim>\<open>onNotificationPosted\<close>: prune the
  history, look for the same amount, and either return or record the amount and call
  \<^verbatim>\<open>sendToServer\<close>. The second component is the amount given to
  \<^verbatim>\<open>sendToServer\<close>, if it was called. The block only compares amounts with
  \<^verbatim>\<open>==\<close>, so it is given for any type of amounts.
\<close>

type_synonym 'a processed = "(long \<times> 'a) list"

definition handleAmount :: "long \<Rightarrow> 'a \<Rightarrow> 'a processed \<Rightarrow> 'a processed \<times> 'a option" where
  "handleAmount currentTime amount processedTransactions =
     (let pruned = filter (\<lambda>(time, _). \<not> (DEBOUNCE_TIME <s currentTime - time))
                     processedTransactions;
          isDuplicate = list_ex (\<lambda>(_, storedAmount). storedAmount = amount) pruned
      in if isDuplicate then (pruned, None)
         else (pruned @ [(currentTime, amount)], Some amount))"

record sbn =
  packageName :: string
  android_text :: string

definition onNotificationPosted ::
  "long \<Rightarrow> sbn option \<Rightarrow> kdouble processed \<Rightarrow> kdouble processed \<times> kdouble option" where
  "onNotificationPosted currentTime n processedTransactions =
     (case n of
        None \<Rightarrow> (processedTransactions, None)
      | Some s \<Rightarrow>
          if packageName s \<noteq> JAGO_PACKAGE then (processedTransactions, None)
          else (case extractAmount (android_text s) of
                  Some amount \<Rightarrow> handleAmount currentTime amount processedTransactions
                | None \<Rightarrow> (processedTransactions, None)))"

subsection \<open>JavaScript values\<close>

text \<open>
  What \<^verbatim>\<open>express.json()\<close> can put into \<^verbatim>\<open>req.body.amount\<close>: a missing field
  reads as \<^verbatim>\<open>undefined\<close>; arrays and objects are one constructor, since the
  handler only asks for their truthiness and their \<^verbatim>\<open>typeof\<close>.
\<close>

datatype jsval = JUndefined | JNull | JBool bool | JNum double | JStr string | JObject

datatype jstype = TUndefined | TObject | TBoolean | TNumber | TString

fun typeof :: "jsval \<Rightarrow> jstype" where
  "typeof JUndefined = TUndefined"
| "typeof JNull = TObject"
| "typeof (JBool _) = TBoolean"
| "typeof (JNum _) = TNumber"
| "typeof (JStr _) = TString"
| "typeof JObject = TObject"

fun truthy :: "jsval \<Rightarrow> bool" where
  "truthy JUndefined = False"
| "truthy JNull = False"
| "truthy (JBool b) = b"
| "truthy (JNum n) = (n \<noteq> 0)"
| "truthy (JStr s) = (s \<noteq> [])"
| "truthy JObject = True"

text \<open>An integer as JavaScript prints it: decimal digits, with a minus sign below zero.\<close>

definition digit_char :: "nat \<Rightarrow> char" where
  "digit_char d = ''0123456789'' ! d"

fun nat_toString :: "nat \<Rightarrow> string" where
  "nat_toString n =
     (if n < 10 then [digit_char n] else nat_toString (n div 10) @ [digit_char (n mod 10)])"

declare nat_toString.simps [simp del]

definition toString :: "int \<Rightarrow> string" where
  "toString i = (if i < 0 then CHR ''-'' # nat_toString (nat (- i)) else nat_toString (nat i))"

subsection \<open>The pending store: the \<^verbatim>\<open>node-cache\<close> instance\<close>

text \<open>
  \<^verbatim>\<open>node-cache\<close> is a dependency of the server, not code of the repository. The
  server creates it with \<^verbatim>\<open>stdTTL: 3600\<close> and every other option at its default,
  and calls \<^verbatim>\<open>set\<close>, \<^verbatim>\<open>get\<close>, \<^verbatim>\<open>del\<close> and \<^verbatim>\<open>keys\<close>. The library keeps
  its data in a plain object: \<^verbatim>\<open>set\<close> stores the value with the time
  \<^verbatim>\<open>Date.now() + ttl * 1000\<close> after which it is stale; \<^verbatim>\<open>keys\<close> is
  \<^verbatim>\<open>Object.keys\<close> of that object, so it lists stale keys that are still stored;
  \<^verbatim>\<open>get\<close> checks the key it is asked for and deletes it when stale; a timer
  (every 600 seconds by default) checks every key. The server's handler relies on
  this: it has a branch for a listed key that \<^verbatim>\<open>get\<close> does not find.

  The keys of the server are strings that start with \<^verbatim>\<open>txn_\<close>, so the object
  lists them in insertion order, and assigning to a key that exists keeps its place:
  an association list in insertion order.
\<close>

record transaction =
  tx_amount :: jsval
  tx_timestamp :: int

type_synonym cache = "(string \<times> int \<times> transaction) list"

definition stdTTL :: int where
  "stdTTL = 3600"

text \<open>The test of \<^verbatim>\<open>_check\<close>: \<^verbatim>\<open>data.t !== 0 && data.t < Date.now()\<close>.\<close>

definition stale :: "int \<Rightarrow> int \<Rightarrow> bool" where
  "stale now t \<longleftrightarrow> t \<noteq> 0 \<and> t < now"

definition cache_keys :: "cache \<Rightarrow> string list" where
  "cache_keys c = map fst c"

definition cache_del :: "string \<Rightarrow> cache \<Rightarrow> cache" where
  "cache_del key c = filter (\<lambda>(k, _). k \<noteq> key) c"

definition cache_set :: "int \<Rightarrow> string \<Rightarrow> transaction \<Rightarrow> cache \<Rightarrow> cache" where
  "cache_set now key val c =
     (let w = (now + stdTTL * 1000, val)
      in if key \<in> set (cache_keys c)
         then map (\<lambda>(k, w'). if k = key then (k, w) else (k, w')) c
         else c @ [(key, w)])"

definition cache_get :: "int \<Rightarrow> string \<Rightarrow> cache \<Rightarrow> cache \<times> transaction option" where
  "cache_get now key c =
     (case map_of c key of
        None \<Rightarrow> (c, None)
      | Some (t, val) \<Rightarrow> if stale now t then (cache_del key c, None) else (c, Some val))"

text \<open>The periodic check of the library: every stale key is deleted.\<close>

definition checkData :: "int \<Rightarrow> cache \<Rightarrow> cache" where
  "checkData now c = filter (\<lambda>(k, t, val). \<not> stale now t) c"

subsection \<open>The server: \<^verbatim>\<open>apps/server/src/index.js\<close>\<close>

record config =
  MY_CHAT_ID :: string
  NOTION_LIVING_COST_PAGE_ID :: "string option"

text \<open>
  The texts the bot sends, by the template they come from and the values put into
  it (the date in the confirmation is read from the clock and left out).
\<close>

datatype message =
    AskPurpose jsval
  | NothingPending
  | NotFoundOrExpired
  | Saving
  | Saved string jsval
  | SaveFailed

datatype response = Status400 | Status200 string | Status500

text \<open>The properties of the page \<^verbatim>\<open>createNotionTransaction\<close> asks Notion to create.\<close>

record properties =
  prop_Name :: string
  prop_Amount :: jsval
  prop_Date :: string
  prop_relation :: "string option"

text \<open>The external calls a handler can make.\<close>

datatype event =
    SendMessage string message
  | Reply message
  | NotionCreate properties
  | Respond response

text \<open>
  What the outside does during one run of a handler: whether
  \<^verbatim>\<open>bot.telegram.sendMessage\<close>, \<^verbatim>\<open>ctx.reply\<close> and \<^verbatim>\<open>notion.pages.create\<close>
  resolve or throw, and the calendar date.
\<close>

record world =
  sendMessage_ok :: bool
  reply_ok :: "message \<Rightarrow> bool"
  notion_ok :: bool
  today :: string

text \<open>
  \<^verbatim>\<open>txn_${Date.now()}_${Math.random().toString(36).substr(2, 9)}\<close>, the random
  suffix being a parameter.
\<close>

definition generateTransactionId :: "int \<Rightarrow> string \<Rightarrow> string" where
  "generateTransactionId now suffix = ''txn_'' @ toString now @ ''_'' @ suffix"

text \<open>
  \<^verbatim>\<open>createNotionTransaction\<close>: the properties it builds, the call it makes, and
  whether it returns (\<open>True\<close>) or rethrows the error of the call.
\<close>

definition build_properties :: "config \<Rightarrow> world \<Rightarrow> string \<Rightarrow> jsval \<Rightarrow> properties" where
  "build_properties cfg w name amount =
     \<lparr>prop_Name = name, prop_Amount = amount, prop_Date = today w,
      prop_relation =
        (case NOTION_LIVING_COST_PAGE_ID cfg of
           None \<Rightarrow> None
         | Some pid \<Rightarrow> if pid = [] then None else Some pid)\<rparr>"

definition createNotionTransaction ::
  "config \<Rightarrow> world \<Rightarrow> string \<Rightarrow> jsval \<Rightarrow> event list \<times> bool" where
  "createNotionTransaction cfg w name amount =
     ([NotionCreate (build_properties cfg w name amount)], notion_ok w)"

text \<open>
  \<^verbatim>\<open>app.post("/webhook/transaction", ...)\<close>. A throw of \<^verbatim>\<open>sendMessage\<close> is
  caught by the handler and answered with status 500, after \<^verbatim>\<open>cache.set\<close>.
\<close>

definition webhook_transaction ::
  "config \<Rightarrow> world \<Rightarrow> int \<Rightarrow> string \<Rightarrow> jsval \<Rightarrow> cache \<Rightarrow> cache \<times> event list" where
  "webhook_transaction cfg w now suffix amount c =
     (if \<not> truthy amount \<or> typeof amount \<noteq> TNumber then (c, [Respond Status400])
      else
        (let transactionId = generateTransactionId now suffix;
             c' = cache_set now transactionId \<lparr>tx_amount = amount, tx_timestamp = now\<rparr> c
         in if sendMessage_ok w
            then (c', [SendMessage (MY_CHAT_ID cfg) (AskPurpose amount),
                       Respond (Status200 transactionId)])
            else (c', [SendMessage (MY_CHAT_ID cfg) (AskPurpose amount),
                       Respond Status500])))"

text \<open>
  The \<^verbatim>\<open>try\<close> block of \<^verbatim>\<open>bot.on("text", ...)\<close> after the check of the chat: the
  cache, the calls made, and whether the block ended without a throw.
\<close>

definition on_text_try ::
  "config \<Rightarrow> world \<Rightarrow> int \<Rightarrow> string \<Rightarrow> cache \<Rightarrow> (cache \<times> event list) \<times> bool" where
  "on_text_try cfg w now userReply c =
     (case cache_keys c of
        [] \<Rightarrow> ((c, [Reply NothingPending]), reply_ok w NothingPending)
      | transactionId # _ \<Rightarrow>
          (case cache_get now transactionId c of
             (c1, None) \<Rightarrow> ((c1, [Reply NotFoundOrExpired]), reply_ok w NotFoundOrExpired)
           | (c1, Some tx) \<Rightarrow>
               if \<not> reply_ok w Saving then ((c1, [Reply Saving]), False)
               else
                 (case createNotionTransaction cfg w userReply (tx_amount tx) of
                    (calls, False) \<Rightarrow> ((c1, Reply Saving # calls), False)
                  | (calls, True) \<Rightarrow>
                      ((cache_del transactionId c1,
                        Reply Saving # calls @ [Reply (Saved userReply (tx_amount tx))]),
                       reply_ok w (Saved userReply (tx_amount tx))))))"

text \<open>
  \<^verbatim>\<open>bot.on("text", ...)\<close>: a message from another chat is logged and dropped; a
  throw inside the block is answered with the failure text.
\<close>

definition on_text ::
  "config \<Rightarrow> world \<Rightarrow> int \<Rightarrow> int \<Rightarrow> string \<Rightarrow> cache \<Rightarrow> cache \<times> event list" where
  "on_text cfg w now chat_id userReply c =
     (if toString chat_id \<noteq> MY_CHAT_ID cfg then (c, [])
      else
        (case on_text_try cfg w now userReply c of
           ((c', calls), True) \<Rightarrow> (c', calls)
         | ((c', calls), False) \<Rightarrow> (c', calls @ [Reply SaveFailed])))"

text \<open>
  The handler is an \<^verbatim>\<open>async\<close> function. It runs without interruption up to its
  first \<^verbatim>\<open>await\<close>; what follows an \<^verbatim>\<open>await\<close> runs later, and other handlers
  can run in between. When an entry is selected, the first \<^verbatim>\<open>await\<close> is the one of
  the saving text, and the handler holds the key and the value it has read.
  \<open>on_text_start\<close> is the run up to that point (or to the end, on the branches
  that touch the cache no more): the cache, the calls made, and what the handler
  holds if it is suspended.
\<close>

definition on_text_start ::
  "config \<Rightarrow> world \<Rightarrow> int \<Rightarrow> int \<Rightarrow> string \<Rightarrow> cache \<Rightarrow>
     (cache \<times> event list) \<times> (string \<times> transaction) option" where
  "on_text_start cfg w now chat_id userReply c =
     (if toString chat_id \<noteq> MY_CHAT_ID cfg then ((c, []), None)
      else
        (case cache_keys c of
           [] \<Rightarrow>
             ((c, Reply NothingPending #
                    (if reply_ok w NothingPending then [] else [Reply SaveFailed])),
              None)
         | transactionId # _ \<Rightarrow>
             (case cache_get now transactionId c of
                (c1, None) \<Rightarrow>
                  ((c1, Reply NotFoundOrExpired #
                          (if reply_ok w NotFoundOrExpired then [] else [Reply SaveFailed])),
                   None)
              | (c1, Some tx) \<Rightarrow> ((c1, [Reply Saving]), Some (transactionId, tx)))))"

text \<open>
  \<open>on_text_resume\<close> is the rest of the handler, from the outcome of the saving
  text on. Its only access to the cache is \<^verbatim>\<open>cache.del\<close> after the ledger call has
  returned, on the cache as it is at that time.
\<close>

definition on_text_resume ::
  "config \<Rightarrow> world \<Rightarrow> string \<Rightarrow> string \<times> transaction \<Rightarrow> cache \<Rightarrow> cache \<times> event list" where
  "on_text_resume cfg w userReply held c =
     (case held of
        (transactionId, tx) \<Rightarrow>
          if \<not> reply_ok w Saving then (c, [Reply SaveFailed])
          else
            (case createNotionTransaction cfg w userReply (tx_amount tx) of
               (calls, False) \<Rightarrow> (c, calls @ [Reply SaveFailed])
             | (calls, True) \<Rightarrow>
                 (cache_del transactionId c,
                  calls @ Reply (Saved userReply (tx_amount tx)) #
                    (if reply_ok w (Saved userReply (tx_amount tx)) then []
                     else [Reply SaveFailed]))))"

text \<open>
  \<^verbatim>\<open>sendToServer\<close> posts \<^verbatim>\<open>{"amount": amount}\<close> to the webhook. With the request
  delivered, what the sensor's result does to the server. The amount is a finite
  double: \<^verbatim>\<open>JSONObject.put\<close> throws on an infinite one, the exception is caught
  inside \<^verbatim>\<open>sendToServer\<close> and nothing is posted.
\<close>

definition sendToServer ::
  "config \<Rightarrow> world \<Rightarrow> int \<Rightarrow> string \<Rightarrow> double option \<Rightarrow> cache \<Rightarrow> cache \<times> event list" where
  "sendToServer cfg w now suffix sent c =
     (case sent of
        None \<Rightarrow> (c, [])
      | Some amount \<Rightarrow> webhook_transaction cfg w now suffix (JNum amount) c)"

subsection \<open>Values for the examples\<close>

definition example_config :: config where
  "example_config = \<lparr>MY_CHAT_ID = ''42'', NOTION_LIVING_COST_PAGE_ID = None\<rparr>"

definition all_up :: world where
  "all_up = \<lparr>sendMessage_ok = True, reply_ok = (\<lambda>_. True), notion_ok = True,
              today = ''2026-02-01''\<rparr>"

definition notion_down :: world where
  "notion_down = \<lparr>sendMessage_ok = True, reply_ok = (\<lambda>_. True), notion_ok = False,
                   today = ''2026-02-01''\<rparr>"

definition telegram_down :: world where
  "telegram_down = \<lparr>sendMessage_ok = False, reply_ok = (\<lambda>_. False), notion_ok = True,
                     today = ''2026-02-01''\<rparr>"

definition pending :: "rat \<Rightarrow> int \<Rightarrow> transaction" where
  "pending a ts = \<lparr>tx_amount = JNum a, tx_timestamp = ts\<rparr>"

text \<open>The entries of the sensor's history that carry a given amount.\<close>

definition same_amount :: "'a \<Rightarrow> 'a processed \<Rightarrow> 'a processed" where
  "same_amount a ps = filter (\<lambda>(_, storedAmount). storedAmount = a) ps"

section \<open>Properties of the pending store and of the handlers\<close>

subsection \<open>Evaluating the printing of integers\<close>

lemma toString_42: "toString 42 = ''42''" by (simp add: toString_def nat_toString.simps digit_char_def)
lemma toString_7: "toString 7 = ''7''" by (simp add: toString_def nat_toString.simps digit_char_def)
lemma gen_id_example: "generateTransactionId 1000 ''a'' = ''txn_1000_a''"
  by (simp add: generateTransactionId_def toString_def nat_toString.simps digit_char_def)

subsection \<open>The cache\<close>

lemma cache_set_fresh:
  "key \<notin> set (cache_keys c) \<Longrightarrow> cache_set now key val c = c @ [(key, now + 3600000, val)]"
  by (simp add: cache_set_def stdTTL_def)

lemma cache_keys_set:
  "cache_keys (cache_set now key val c) =
     (if key \<in> set (cache_keys c) then cache_keys c else cache_keys c @ [key])"
  by (induction c) (auto simp: cache_set_def cache_keys_def Let_def)

lemma map_of_overwrite:
  "map_of (map (\<lambda>(k, w'). if k = key then (k, w) else (k, w')) c) key =
     (if key \<in> fst ` set c then Some w else None)"
  by (induction c) auto

lemma map_of_append_fresh:
  "key \<notin> fst ` set c \<Longrightarrow> map_of (c @ [(key, w)]) key = Some w"
  by (induction c) auto

lemma map_of_cache_set:
  "map_of (cache_set now key val c) key = Some (now + 3600000, val)"
proof (cases "key \<in> fst ` set c")
  case True
  then show ?thesis
    by (simp add: cache_set_def cache_keys_def stdTTL_def map_of_overwrite)
next
  case False
  then have "cache_set now key val c = c @ [(key, now + 3600000, val)]"
    by (simp add: cache_set_def cache_keys_def stdTTL_def)
  moreover have "map_of (c @ [(key, now + 3600000, val)]) key = Some (now + 3600000, val)"
    using False by (rule map_of_append_fresh)
  ultimately show ?thesis by (simp only:)
qed

lemma cache_keys_del: "cache_keys (cache_del key c) = removeAll key (cache_keys c)"
  by (induction c) (auto simp: cache_del_def cache_keys_def)

lemma cache_del_head:
  "key \<notin> set (cache_keys rest) \<Longrightarrow> cache_del key ((key, e) # rest) = rest"
  by (induction rest) (auto simp: cache_del_def cache_keys_def)

lemma cache_get_head_live:
  "\<not> stale now t \<Longrightarrow>
   cache_get now key ((key, t, val) # rest) = ((key, t, val) # rest, Some val)"
  by (simp add: cache_get_def)

lemma cache_get_head_stale:
  "stale now t \<Longrightarrow>
   cache_get now key ((key, t, val) # rest) = (cache_del key ((key, t, val) # rest), None)"
  by (simp add: cache_get_def)

subsection \<open>The reply handler, branch by branch\<close>

lemma on_text_try_head_live:
  "\<not> stale now t \<Longrightarrow>
   on_text_try cfg w now userReply ((key, t, tx) # rest) =
     (if \<not> reply_ok w Saving then (((key, t, tx) # rest, [Reply Saving]), False)
      else if \<not> notion_ok w
      then (((key, t, tx) # rest,
             [Reply Saving, NotionCreate (build_properties cfg w userReply (tx_amount tx))]),
            False)
      else ((cache_del key ((key, t, tx) # rest),
             [Reply Saving, NotionCreate (build_properties cfg w userReply (tx_amount tx)),
              Reply (Saved userReply (tx_amount tx))]),
            reply_ok w (Saved userReply (tx_amount tx))))"
  by (simp add: on_text_try_def cache_keys_def cache_get_head_live createNotionTransaction_def)

lemma on_text_try_head_stale:
  "stale now t \<Longrightarrow>
   on_text_try cfg w now userReply ((key, t, tx) # rest) =
     ((cache_del key ((key, t, tx) # rest), [Reply NotFoundOrExpired]),
      reply_ok w NotFoundOrExpired)"
  by (simp add: on_text_try_def cache_keys_def cache_get_head_stale)

lemma on_text_try_empty:
  "on_text_try cfg w now userReply [] = (([], [Reply NothingPending]), reply_ok w NothingPending)"
  by (simp add: on_text_try_def cache_keys_def)

lemma on_text_resolves_head:
  assumes "toString chat_id = MY_CHAT_ID cfg"
    and "\<not> stale now t" and "key \<notin> set (cache_keys rest)"
    and "reply_ok w Saving" and "notion_ok w" and "reply_ok w (Saved userReply (tx_amount tx))"
  shows "on_text cfg w now chat_id userReply ((key, t, tx) # rest) =
     (rest, [Reply Saving, NotionCreate (build_properties cfg w userReply (tx_amount tx)),
             Reply (Saved userReply (tx_amount tx))])"
  using assms by (simp add: on_text_def on_text_try_head_live cache_del_head)

lemma on_text_notion_fails:
  assumes "toString chat_id = MY_CHAT_ID cfg"
    and "\<not> stale now t" and "reply_ok w Saving" and "\<not> notion_ok w"
  shows "on_text cfg w now chat_id userReply ((key, t, tx) # rest) =
     ((key, t, tx) # rest,
      [Reply Saving, NotionCreate (build_properties cfg w userReply (tx_amount tx)),
       Reply SaveFailed])"
  using assms by (simp add: on_text_def on_text_try_head_live)

lemma on_text_head_stale:
  assumes "toString chat_id = MY_CHAT_ID cfg" and "stale now t"
  shows "on_text cfg w now chat_id userReply ((key, t, tx) # rest) =
     (cache_del key ((key, t, tx) # rest),
      Reply NotFoundOrExpired # (if reply_ok w NotFoundOrExpired then [] else [Reply SaveFailed]))"
  using assms by (simp add: on_text_def on_text_try_head_stale)

lemma on_text_empty:
  assumes "toString chat_id = MY_CHAT_ID cfg"
  shows "on_text cfg w now chat_id userReply [] =
     ([], Reply NothingPending # (if reply_ok w NothingPending then [] else [Reply SaveFailed]))"
  using assms by (simp add: on_text_def on_text_try_empty)

subsection \<open>The webhook on an accepted amount\<close>

lemma webhook_accepts:
  assumes "truthy amount" and "typeof amount = TNumber"
  shows "webhook_transaction cfg w now suffix amount c =
     (cache_set now (generateTransactionId now suffix)
        \<lparr>tx_amount = amount, tx_timestamp = now\<rparr> c,
      [SendMessage (MY_CHAT_ID cfg) (AskPurpose amount),
       Respond (if sendMessage_ok w then Status200 (generateTransactionId now suffix)
                else Status500)])"
  using assms by (simp add: webhook_transaction_def Let_def)

section \<open>The specification's claims, checked against the code\<close>

subsection \<open>C2: amounts the webhook rejects\<close>

text \<open>
  C2, as stated, fails: the test of the webhook is
  \<^verbatim>\<open>!amount || typeof amount !== "number"\<close>, and a negative number is truthy and a
  number. Posting the amount \<open>-5\<close> to a server with an empty cache stores a pending
  entry, sends the question to the chat and answers with status 200.
\<close>

theorem negative_amount_accepted:
  "webhook_transaction example_config all_up 1000 ''a'' (JNum (- 5)) [] =
     ([(''txn_1000_a'', 3601000, pending (- 5) 1000)],
      [SendMessage ''42'' (AskPurpose (JNum (- 5))), Respond (Status200 ''txn_1000_a'')])"
  by (simp add: webhook_accepts cache_set_fresh cache_keys_def pending_def gen_id_example
      example_config_def all_up_def)

text \<open>
  C2, amended: an amount that is missing, equal to 0 or not a number is rejected with
  status 400; the cache is returned as it was and the response is the only call made,
  so no pending entry is created and no notification is sent.
\<close>

theorem webhook_rejects_invalid_amount:
  "amount = JUndefined \<or> amount = JNum 0 \<or> typeof amount \<noteq> TNumber \<Longrightarrow>
   webhook_transaction cfg w now suffix amount c = (c, [Respond Status400])"
  by (cases amount) (auto simp: webhook_transaction_def)

theorem webhook_rejects_invalid_amount_witness:
  "(JStr ''fifty thousand'' = JUndefined \<or> JStr ''fifty thousand'' = JNum 0
      \<or> typeof (JStr ''fifty thousand'') \<noteq> TNumber) \<and>
   webhook_transaction example_config all_up 1000 ''a'' (JStr ''fifty thousand'')
     [(''txn_5_b'', 3600005, pending 10000 5)] =
     ([(''txn_5_b'', 3600005, pending 10000 5)], [Respond Status400])"
proof -
  have h: "JStr ''fifty thousand'' = JUndefined \<or> JStr ''fifty thousand'' = JNum 0
      \<or> typeof (JStr ''fifty thousand'') \<noteq> TNumber" by simp
  show ?thesis using h webhook_rejects_invalid_amount [OF h] by simp
qed

subsection \<open>C6: replies from another chat\<close>

text \<open>
  C6: a text message whose chat id, printed, differs from \<^verbatim>\<open>MY_CHAT_ID\<close> leaves
  the cache as it was and makes no external call: no ledger write and no reply,
  whatever the cache holds.
\<close>

theorem unauthorized_reply_ignored:
  "toString chat_id \<noteq> MY_CHAT_ID cfg \<Longrightarrow> on_text cfg w now chat_id userReply c = (c, [])"
  by (simp add: on_text_def)

theorem unauthorized_reply_ignored_witness:
  "toString 7 \<noteq> MY_CHAT_ID example_config \<and>
   on_text example_config all_up 2000 7 ''Lunch'' [(''txn_1000_a'', 3601000, pending 10000 1000)] =
     ([(''txn_1000_a'', 3601000, pending 10000 1000)], [])"
proof -
  have h: "toString 7 \<noteq> MY_CHAT_ID example_config"
    by (simp add: toString_7 example_config_def)
  show ?thesis using h unauthorized_reply_ignored [OF h] by simp
qed

subsection \<open>C1: a failed ledger write\<close>

text \<open>
  C1, as stated, fails: the handler reads the entry with \<^verbatim>\<open>cache.get\<close> and calls
  \<^verbatim>\<open>cache.del\<close> only after \<^verbatim>\<open>createNotionTransaction\<close> has returned. When
  Notion is down the reply is answered with the failure text and the cache still holds
  the entry; the next reply, with Notion up, writes it to the ledger.
\<close>

theorem ledger_failure_then_retry_example:
  "on_text example_config notion_down 2000 42 ''Lunch''
     [(''txn_1000_a'', 3601000, pending 10000 1000)] =
     ([(''txn_1000_a'', 3601000, pending 10000 1000)],
      [Reply Saving, NotionCreate (build_properties example_config notion_down ''Lunch'' (JNum 10000)),
       Reply SaveFailed]) \<and>
   on_text example_config all_up 3000 42 ''Makan siang''
     (fst (on_text example_config notion_down 2000 42 ''Lunch''
        [(''txn_1000_a'', 3601000, pending 10000 1000)])) =
     ([], [Reply Saving, NotionCreate (build_properties example_config all_up ''Makan siang'' (JNum 10000)),
           Reply (Saved ''Makan siang'' (JNum 10000))])"
proof -
  have auth: "toString 42 = MY_CHAT_ID example_config"
    by (simp add: toString_42 example_config_def)
  have first: "on_text example_config notion_down 2000 42 ''Lunch''
     [(''txn_1000_a'', 3601000, pending 10000 1000)] =
     ([(''txn_1000_a'', 3601000, pending 10000 1000)],
      [Reply Saving, NotionCreate (build_properties example_config notion_down ''Lunch'' (JNum 10000)),
       Reply SaveFailed])"
    using on_text_notion_fails [OF auth, of 2000 3601000 notion_down "''Lunch''" "''txn_1000_a''"
        "pending 10000 1000" "[]"]
    by (simp add: stale_def notion_down_def pending_def)
  have second: "on_text example_config all_up 3000 42 ''Makan siang''
     [(''txn_1000_a'', 3601000, pending 10000 1000)] =
     ([], [Reply Saving, NotionCreate (build_properties example_config all_up ''Makan siang'' (JNum 10000)),
           Reply (Saved ''Makan siang'' (JNum 10000))])"
    using on_text_resolves_head [OF auth, of 3000 3601000 "''txn_1000_a''" "[]" all_up "''Makan siang''"
        "pending 10000 1000"]
    by (simp add: stale_def all_up_def pending_def cache_keys_def)
  show ?thesis by (simp only: first second fst_conv simp_thms)
qed

text \<open>
  C1, amended: when the reply of the authorized chat selects a pending entry and the
  ledger call fails, the handler sends the failure text and leaves the cache as it
  was, the selected entry included; a later reply, with the ledger working and the
  entry still within its time to live, writes that entry's amount to the ledger and
  removes it.
\<close>

theorem ledger_failure_keeps_pending_entry:
  assumes auth: "toString chat_id = MY_CHAT_ID cfg"
    and live: "\<not> stale now t"
    and saving: "reply_ok w Saving"
    and down: "\<not> notion_ok w"
    and fresh: "key \<notin> set (cache_keys rest)"
    and live': "\<not> stale now' t"
    and up: "reply_ok w' Saving \<and> notion_ok w' \<and> reply_ok w' (Saved userReply' (tx_amount tx))"
  shows "on_text cfg w now chat_id userReply ((key, t, tx) # rest) =
           ((key, t, tx) # rest,
            [Reply Saving, NotionCreate (build_properties cfg w userReply (tx_amount tx)),
             Reply SaveFailed]) \<and>
         on_text cfg w' now' chat_id userReply'
             (fst (on_text cfg w now chat_id userReply ((key, t, tx) # rest))) =
           (rest,
            [Reply Saving, NotionCreate (build_properties cfg w' userReply' (tx_amount tx)),
             Reply (Saved userReply' (tx_amount tx))])"
proof -
  have first: "on_text cfg w now chat_id userReply ((key, t, tx) # rest) =
           ((key, t, tx) # rest,
            [Reply Saving, NotionCreate (build_properties cfg w userReply (tx_amount tx)),
             Reply SaveFailed])"
    using auth live saving down by (rule on_text_notion_fails)
  have second: "on_text cfg w' now' chat_id userReply' ((key, t, tx) # rest) =
           (rest,
            [Reply Saving, NotionCreate (build_properties cfg w' userReply' (tx_amount tx)),
             Reply (Saved userReply' (tx_amount tx))])"
    using auth live' fresh up by (simp add: on_text_resolves_head)
  show ?thesis by (simp only: first second fst_conv simp_thms)
qed

theorem ledger_failure_keeps_pending_entry_witness:
  "toString 42 = MY_CHAT_ID example_config \<and>
   \<not> stale 2000 3601000 \<and> reply_ok notion_down Saving \<and> \<not> notion_ok notion_down \<and>
   ''txn_1000_a'' \<notin> set (cache_keys [(''txn_1500_b'', 3601500, pending 20000 1500)]) \<and>
   \<not> stale 3000 3601000 \<and>
   (reply_ok all_up Saving \<and> notion_ok all_up \<and>
    reply_ok all_up (Saved ''Makan siang'' (tx_amount (pending 10000 1000)))) \<and>
   on_text example_config notion_down 2000 42 ''Lunch''
       [(''txn_1000_a'', 3601000, pending 10000 1000),
        (''txn_1500_b'', 3601500, pending 20000 1500)] =
     ([(''txn_1000_a'', 3601000, pending 10000 1000),
       (''txn_1500_b'', 3601500, pending 20000 1500)],
      [Reply Saving,
       NotionCreate (build_properties example_config notion_down ''Lunch''
                       (tx_amount (pending 10000 1000))),
       Reply SaveFailed]) \<and>
   on_text example_config all_up 3000 42 ''Makan siang''
       (fst (on_text example_config notion_down 2000 42 ''Lunch''
          [(''txn_1000_a'', 3601000, pending 10000 1000),
           (''txn_1500_b'', 3601500, pending 20000 1500)])) =
     ([(''txn_1500_b'', 3601500, pending 20000 1500)],
      [Reply Saving,
       NotionCreate (build_properties example_config all_up ''Makan siang''
                       (tx_amount (pending 10000 1000))),
       Reply (Saved ''Makan siang'' (tx_amount (pending 10000 1000)))])"
proof -
  have auth: "toString 42 = MY_CHAT_ID example_config"
    by (simp add: toString_42 example_config_def)
  have live: "\<not> stale 2000 3601000" by (simp add: stale_def)
  have saving: "reply_ok notion_down Saving" by (simp add: notion_down_def)
  have down: "\<not> notion_ok notion_down" by (simp add: notion_down_def)
  have fresh: "''txn_1000_a'' \<notin> set (cache_keys [(''txn_1500_b'', 3601500, pending 20000 1500)])"
    by (simp add: cache_keys_def)
  have live': "\<not> stale 3000 3601000" by (simp add: stale_def)
  have up: "reply_ok all_up Saving \<and> notion_ok all_up \<and>
    reply_ok all_up (Saved ''Makan siang'' (tx_amount (pending 10000 1000)))"
    by (simp add: all_up_def)
  note main = ledger_failure_keeps_pending_entry [OF auth live saving down fresh live' up,
      of "''Lunch''"]
  show ?thesis
    by (intro conjI auth live saving down fresh live'
        up [THEN conjunct1] up [THEN conjunct2, THEN conjunct1]
        up [THEN conjunct2, THEN conjunct2]
        main [THEN conjunct1] main [THEN conjunct2])
qed

subsection \<open>C4: replies resolve the pending entries first in, first out\<close>

text \<open>
  A run of the handler that nothing interrupts is its start followed at once by its
  rest.
\<close>

lemma on_text_in_two_parts:
  "on_text cfg w now chat_id userReply c =
     (case on_text_start cfg w now chat_id userReply c of
        ((c1, calls), None) \<Rightarrow> (c1, calls)
      | ((c1, calls), Some held) \<Rightarrow>
          (case on_text_resume cfg w userReply held c1 of
             (c2, calls') \<Rightarrow> (c2, calls @ calls')))"
  by (auto simp: on_text_def on_text_try_def on_text_start_def on_text_resume_def
      createNotionTransaction_def split: list.splits prod.splits option.splits bool.splits)

lemma build_properties_fields:
  "prop_Name (build_properties cfg w name amount) = name \<and>
   prop_Amount (build_properties cfg w name amount) = amount \<and>
   prop_Date (build_properties cfg w name amount) = today w"
  by (simp add: build_properties_def)

text \<open>
  C4, as stated, fails in two ways. First, a reply that finds the entry stored first
  past its time to live resolves nothing, although a later entry is pending: with an
  amount stored at 1000 and another at 3000000, the reply at 3601001 is answered with
  the not-found-or-expired text, no ledger call is made, and the second entry stays
  where it was. Second, the handler deletes the entry it has read only after two
  \<^verbatim>\<open>await\<close>s. Two replies that both start before either has reached
  \<^verbatim>\<open>cache.del\<close> both read the first key: with the amounts 10000 and 20000 pending,
  both ledger pages carry 10000, and the entry of 20000 is still pending after both
  replies have ended.
\<close>

theorem stale_head_and_overlapping_replies_example:
  "on_text example_config all_up 3601001 42 ''Lunch''
       [(''txn_1000_a'', 3601000, pending 10000 1000),
        (''txn_3000000_b'', 6600000, pending 20000 3000000)] =
     ([(''txn_3000000_b'', 6600000, pending 20000 3000000)], [Reply NotFoundOrExpired]) \<and>
   on_text_start example_config all_up 2000 42 ''Lunch''
       [(''txn_1000_a'', 3601000, pending 10000 1000),
        (''txn_1500_b'', 3601500, pending 20000 1500)] =
     (([(''txn_1000_a'', 3601000, pending 10000 1000),
        (''txn_1500_b'', 3601500, pending 20000 1500)], [Reply Saving]),
      Some (''txn_1000_a'', pending 10000 1000)) \<and>
   on_text_start example_config all_up 2001 42 ''Bensin''
       [(''txn_1000_a'', 3601000, pending 10000 1000),
        (''txn_1500_b'', 3601500, pending 20000 1500)] =
     (([(''txn_1000_a'', 3601000, pending 10000 1000),
        (''txn_1500_b'', 3601500, pending 20000 1500)], [Reply Saving]),
      Some (''txn_1000_a'', pending 10000 1000)) \<and>
   on_text_resume example_config all_up ''Lunch'' (''txn_1000_a'', pending 10000 1000)
       [(''txn_1000_a'', 3601000, pending 10000 1000),
        (''txn_1500_b'', 3601500, pending 20000 1500)] =
     ([(''txn_1500_b'', 3601500, pending 20000 1500)],
      [NotionCreate \<lparr>prop_Name = ''Lunch'', prop_Amount = JNum 10000,
                     prop_Date = ''2026-02-01'', prop_relation = None\<rparr>,
       Reply (Saved ''Lunch'' (JNum 10000))]) \<and>
   on_text_resume example_config all_up ''Bensin'' (''txn_1000_a'', pending 10000 1000)
       [(''txn_1500_b'', 3601500, pending 20000 1500)] =
     ([(''txn_1500_b'', 3601500, pending 20000 1500)],
      [NotionCreate \<lparr>prop_Name = ''Bensin'', prop_Amount = JNum 10000,
                     prop_Date = ''2026-02-01'', prop_relation = None\<rparr>,
       Reply (Saved ''Bensin'' (JNum 10000))])"
proof -
  have auth: "toString 42 = MY_CHAT_ID example_config"
    by (simp add: toString_42 example_config_def)
  have late: "stale 3601001 3601000" by (simp add: stale_def)
  have stale_head: "on_text example_config all_up 3601001 42 ''Lunch''
       [(''txn_1000_a'', 3601000, pending 10000 1000),
        (''txn_3000000_b'', 6600000, pending 20000 3000000)] =
     ([(''txn_3000000_b'', 6600000, pending 20000 3000000)], [Reply NotFoundOrExpired])"
    using on_text_head_stale [OF auth late, of all_up "''Lunch''" "''txn_1000_a''"
        "pending 10000 1000" "[(''txn_3000000_b'', 6600000, pending 20000 3000000)]"]
    by (simp add: cache_del_def all_up_def)
  have start: "on_text_start example_config all_up now 42 userReply
       [(''txn_1000_a'', 3601000, pending 10000 1000),
        (''txn_1500_b'', 3601500, pending 20000 1500)] =
     (([(''txn_1000_a'', 3601000, pending 10000 1000),
        (''txn_1500_b'', 3601500, pending 20000 1500)], [Reply Saving]),
      Some (''txn_1000_a'', pending 10000 1000))"
    if "now \<le> 3601000" for now userReply
    using that auth
    by (simp add: on_text_start_def cache_keys_def cache_get_def stale_def)
  have resume1: "on_text_resume example_config all_up ''Lunch''
       (''txn_1000_a'', pending 10000 1000)
       [(''txn_1000_a'', 3601000, pending 10000 1000),
        (''txn_1500_b'', 3601500, pending 20000 1500)] =
     ([(''txn_1500_b'', 3601500, pending 20000 1500)],
      [NotionCreate \<lparr>prop_Name = ''Lunch'', prop_Amount = JNum 10000,
                     prop_Date = ''2026-02-01'', prop_relation = None\<rparr>,
       Reply (Saved ''Lunch'' (JNum 10000))])"
    by (simp add: on_text_resume_def createNotionTransaction_def build_properties_def
        cache_del_def all_up_def example_config_def pending_def)
  have resume2: "on_text_resume example_config all_up ''Bensin''
       (''txn_1000_a'', pending 10000 1000)
       [(''txn_1500_b'', 3601500, pending 20000 1500)] =
     ([(''txn_1500_b'', 3601500, pending 20000 1500)],
      [NotionCreate \<lparr>prop_Name = ''Bensin'', prop_Amount = JNum 10000,
                     prop_Date = ''2026-02-01'', prop_relation = None\<rparr>,
       Reply (Saved ''Bensin'' (JNum 10000))])"
    by (simp add: on_text_resume_def createNotionTransaction_def build_properties_def
        cache_del_def all_up_def example_config_def pending_def)
  show ?thesis
    by (intro conjI stale_head start resume1 resume2) simp_all
qed

text \<open>
  C4, amended: resolution is first in, first out for replies that are handled one
  after the other, each run ending before the next one starts. Two amounts are
  posted to an empty cache under different ids; the cache lists them in that order.
  When both are within their time to live at the time of the reply that meets them,
  and Telegram and Notion are up, the first reply makes one ledger call, for a page
  whose name is the reply's text and whose amount is the first amount, and removes the
  first entry only; the second reply does the same for the second amount and leaves
  the cache empty. When the first entry is past its time to live at the first reply,
  that reply resolves nothing: it is answered with the not-found-or-expired text and
  only the stale entry is removed.
\<close>

theorem fifo_resolution:
  assumes auth: "toString chat_id = MY_CHAT_ID cfg"
    and ids: "generateTransactionId t1 s1 \<noteq> generateTransactionId t2 s2"
    and a1: "truthy a1 \<and> typeof a1 = TNumber"
    and a2: "truthy a2 \<and> typeof a2 = TNumber"
    and up3: "reply_ok w3 Saving \<and> notion_ok w3 \<and> reply_ok w3 (Saved r1 a1)"
    and up4: "reply_ok w4 Saving \<and> notion_ok w4 \<and> reply_ok w4 (Saved r2 a2)"
  shows "(let c1 = fst (webhook_transaction cfg w1 t1 s1 a1 []);
              c2 = fst (webhook_transaction cfg w2 t2 s2 a2 c1);
              first = on_text cfg w3 n1 chat_id r1 c2;
              second = on_text cfg w4 n2 chat_id r2 (fst first)
          in cache_keys c2 = [generateTransactionId t1 s1, generateTransactionId t2 s2] \<and>
             (\<not> stale n1 (t1 + 3600000) \<and> \<not> stale n2 (t2 + 3600000) \<longrightarrow>
                snd first = [Reply Saving, NotionCreate (build_properties cfg w3 r1 a1),
                             Reply (Saved r1 a1)] \<and>
                prop_Name (build_properties cfg w3 r1 a1) = r1 \<and>
                prop_Amount (build_properties cfg w3 r1 a1) = a1 \<and>
                fst first = [(generateTransactionId t2 s2, t2 + 3600000,
                              \<lparr>tx_amount = a2, tx_timestamp = t2\<rparr>)] \<and>
                snd second = [Reply Saving, NotionCreate (build_properties cfg w4 r2 a2),
                              Reply (Saved r2 a2)] \<and>
                prop_Name (build_properties cfg w4 r2 a2) = r2 \<and>
                prop_Amount (build_properties cfg w4 r2 a2) = a2 \<and>
                fst second = []) \<and>
             (stale n1 (t1 + 3600000) \<longrightarrow>
                first =
                  ([(generateTransactionId t2 s2, t2 + 3600000,
                     \<lparr>tx_amount = a2, tx_timestamp = t2\<rparr>)],
                   Reply NotFoundOrExpired #
                     (if reply_ok w3 NotFoundOrExpired then [] else [Reply SaveFailed]))))"
proof -
  define k1 where "k1 = generateTransactionId t1 s1"
  define k2 where "k2 = generateTransactionId t2 s2"
  define e1 where "e1 = (k1, t1 + 3600000, \<lparr>tx_amount = a1, tx_timestamp = t1\<rparr>)"
  define e2 where "e2 = (k2, t2 + 3600000, \<lparr>tx_amount = a2, tx_timestamp = t2\<rparr>)"
  have c1: "fst (webhook_transaction cfg w1 t1 s1 a1 []) = [e1]"
    using a1 by (simp add: webhook_accepts cache_set_fresh cache_keys_def k1_def e1_def)
  have c2: "fst (webhook_transaction cfg w2 t2 s2 a2 [e1]) = [e1, e2]"
    using a2 ids
    by (simp add: webhook_accepts cache_set_fresh cache_keys_def k1_def k2_def e1_def e2_def)
  have keys2: "cache_keys [e1, e2] = [generateTransactionId t1 s1, generateTransactionId t2 s2]"
    by (simp add: cache_keys_def e1_def e2_def k1_def k2_def)
  have fresh: "k1 \<notin> set (cache_keys [e2])"
    using ids by (simp add: cache_keys_def e2_def k1_def k2_def)
  have first: "on_text cfg w3 n1 chat_id r1 [e1, e2] =
      ([e2], [Reply Saving, NotionCreate (build_properties cfg w3 r1 a1), Reply (Saved r1 a1)])"
    if live1: "\<not> stale n1 (t1 + 3600000)"
    unfolding e1_def
    using on_text_resolves_head [OF auth live1 fresh, of w3 r1
        "\<lparr>tx_amount = a1, tx_timestamp = t1\<rparr>"] up3
    by simp
  have second: "on_text cfg w4 n2 chat_id r2 [e2] =
      ([], [Reply Saving, NotionCreate (build_properties cfg w4 r2 a2), Reply (Saved r2 a2)])"
    if live2: "\<not> stale n2 (t2 + 3600000)"
    unfolding e2_def
    using on_text_resolves_head [OF auth live2, of k2 "[]" w4 r2
        "\<lparr>tx_amount = a2, tx_timestamp = t2\<rparr>"] up4
    by (simp add: cache_keys_def)
  have dropped: "on_text cfg w3 n1 chat_id r1 [e1, e2] =
      ([e2], Reply NotFoundOrExpired #
               (if reply_ok w3 NotFoundOrExpired then [] else [Reply SaveFailed]))"
    if late: "stale n1 (t1 + 3600000)"
    unfolding e1_def
    using on_text_head_stale [OF auth late, of w3 r1 k1
        "\<lparr>tx_amount = a1, tx_timestamp = t1\<rparr>" "[e2]"] fresh
    by (simp add: cache_del_head)
  have e2: "[e2] = [(generateTransactionId t2 s2, t2 + 3600000,
                     \<lparr>tx_amount = a2, tx_timestamp = t2\<rparr>)]"
    by (simp add: e2_def k2_def)
  show ?thesis
    unfolding Let_def c1 c2 keys2
    using first second dropped
    by (auto simp: build_properties_fields e2 [symmetric])
qed

theorem fifo_resolution_witness:
  "toString 42 = MY_CHAT_ID example_config \<and>
   generateTransactionId 1000 ''a'' \<noteq> generateTransactionId 1500 ''b'' \<and>
   generateTransactionId 1000 ''a'' \<noteq> generateTransactionId 3000000 ''b'' \<and>
   (truthy (JNum 10000) \<and> typeof (JNum 10000) = TNumber) \<and>
   (truthy (JNum 20000) \<and> typeof (JNum 20000) = TNumber) \<and>
   (reply_ok all_up Saving \<and> notion_ok all_up \<and> reply_ok all_up (Saved ''Lunch'' (JNum 10000))) \<and>
   (reply_ok all_up Saving \<and> notion_ok all_up \<and> reply_ok all_up (Saved ''Bensin'' (JNum 20000))) \<and>
   fst (webhook_transaction example_config telegram_down 1500 ''b'' (JNum 20000)
          (fst (webhook_transaction example_config all_up 1000 ''a'' (JNum 10000) []))) =
     [(''txn_1000_a'', 3601000, pending 10000 1000),
      (''txn_1500_b'', 3601500, pending 20000 1500)] \<and>
   on_text example_config all_up 2000 42 ''Lunch''
       [(''txn_1000_a'', 3601000, pending 10000 1000),
        (''txn_1500_b'', 3601500, pending 20000 1500)] =
     ([(''txn_1500_b'', 3601500, pending 20000 1500)],
      [Reply Saving,
       NotionCreate \<lparr>prop_Name = ''Lunch'', prop_Amount = JNum 10000,
                     prop_Date = ''2026-02-01'', prop_relation = None\<rparr>,
       Reply (Saved ''Lunch'' (JNum 10000))]) \<and>
   on_text example_config all_up 3000 42 ''Bensin''
       [(''txn_1500_b'', 3601500, pending 20000 1500)] =
     ([],
      [Reply Saving,
       NotionCreate \<lparr>prop_Name = ''Bensin'', prop_Amount = JNum 20000,
                     prop_Date = ''2026-02-01'', prop_relation = None\<rparr>,
       Reply (Saved ''Bensin'' (JNum 20000))]) \<and>
   on_text example_config all_up 3601001 42 ''Lunch''
       (fst (webhook_transaction example_config all_up 3000000 ''b'' (JNum 20000)
          (fst (webhook_transaction example_config all_up 1000 ''a'' (JNum 10000) [])))) =
     ([(''txn_3000000_b'', 6600000, pending 20000 3000000)], [Reply NotFoundOrExpired])"
proof -
  have auth: "toString 42 = MY_CHAT_ID example_config"
    by (simp add: toString_42 example_config_def)
  have id1: "generateTransactionId 1000 ''a'' = ''txn_1000_a''"
    and id2: "generateTransactionId 1500 ''b'' = ''txn_1500_b''"
    and id3: "generateTransactionId 3000000 ''b'' = ''txn_3000000_b''"
    by (simp_all add: generateTransactionId_def toString_def nat_toString.simps digit_char_def)
  have ids: "generateTransactionId 1000 ''a'' \<noteq> generateTransactionId 1500 ''b''"
    and ids': "generateTransactionId 1000 ''a'' \<noteq> generateTransactionId 3000000 ''b''"
    by (simp_all add: id1 id2 id3)
  have a1: "truthy (JNum 10000) \<and> typeof (JNum 10000) = TNumber" by simp
  have a2: "truthy (JNum 20000) \<and> typeof (JNum 20000) = TNumber" by simp
  have up3: "reply_ok all_up Saving \<and> notion_ok all_up \<and>
      reply_ok all_up (Saved ''Lunch'' (JNum 10000))"
    by (simp add: all_up_def)
  have up4: "reply_ok all_up Saving \<and> notion_ok all_up \<and>
      reply_ok all_up (Saved ''Bensin'' (JNum 20000))"
    by (simp add: all_up_def)
  have stored: "fst (webhook_transaction example_config w 1000 ''a'' (JNum 10000) []) =
      [(''txn_1000_a'', 3601000, pending 10000 1000)]" for w
    by (simp add: webhook_accepts cache_set_fresh cache_keys_def id1 pending_def)
  have stored2: "fst (webhook_transaction example_config telegram_down 1500 ''b'' (JNum 20000)
          (fst (webhook_transaction example_config all_up 1000 ''a'' (JNum 10000) []))) =
     [(''txn_1000_a'', 3601000, pending 10000 1000),
      (''txn_1500_b'', 3601500, pending 20000 1500)]"
    by (simp add: webhook_accepts cache_set_fresh cache_keys_def id1 id2 pending_def)
  have stored3: "fst (webhook_transaction example_config all_up 3000000 ''b'' (JNum 20000)
          (fst (webhook_transaction example_config all_up 1000 ''a'' (JNum 10000) []))) =
     [(''txn_1000_a'', 3601000, pending 10000 1000),
      (''txn_3000000_b'', 6600000, pending 20000 3000000)]"
    by (simp add: webhook_accepts cache_set_fresh cache_keys_def id1 id3 pending_def)
  have page: "build_properties example_config all_up name amount =
      \<lparr>prop_Name = name, prop_Amount = amount, prop_Date = ''2026-02-01'',
       prop_relation = None\<rparr>" for name amount
    by (simp add: build_properties_def example_config_def all_up_def)
  note in_time =
    fifo_resolution [OF auth ids a1 a2 up3 up4, of all_up telegram_down 2000 3000]
  note too_late =
    fifo_resolution [OF auth ids' a1 a2 up3 up4, of all_up all_up 3601001 3601002]
  have first: "on_text example_config all_up 2000 42 ''Lunch''
       [(''txn_1000_a'', 3601000, pending 10000 1000),
        (''txn_1500_b'', 3601500, pending 20000 1500)] =
     ([(''txn_1500_b'', 3601500, pending 20000 1500)],
      [Reply Saving,
       NotionCreate \<lparr>prop_Name = ''Lunch'', prop_Amount = JNum 10000,
                     prop_Date = ''2026-02-01'', prop_relation = None\<rparr>,
       Reply (Saved ''Lunch'' (JNum 10000))])"
    using in_time
    by (simp add: Let_def stored2 stale_def id1 id2 page pending_def prod_eq_iff)
  have second: "on_text example_config all_up 3000 42 ''Bensin''
       [(''txn_1500_b'', 3601500, pending 20000 1500)] =
     ([],
      [Reply Saving,
       NotionCreate \<lparr>prop_Name = ''Bensin'', prop_Amount = JNum 20000,
                     prop_Date = ''2026-02-01'', prop_relation = None\<rparr>,
       Reply (Saved ''Bensin'' (JNum 20000))])"
    using first in_time
    by (simp add: Let_def stored2 stale_def id1 id2 page pending_def prod_eq_iff)
  have stale_first: "on_text example_config all_up 3601001 42 ''Lunch''
       (fst (webhook_transaction example_config all_up 3000000 ''b'' (JNum 20000)
          (fst (webhook_transaction example_config all_up 1000 ''a'' (JNum 10000) [])))) =
     ([(''txn_3000000_b'', 6600000, pending 20000 3000000)], [Reply NotFoundOrExpired])"
    using too_late
    by (simp add: Let_def stale_def id1 id3 pending_def all_up_def)
  show ?thesis
    by (intro conjI auth ids ids' stored2 first second stale_first
        a1 [THEN conjunct1] a1 [THEN conjunct2] a2 [THEN conjunct1] a2 [THEN conjunct2]
        up3 [THEN conjunct1] up3 [THEN conjunct2, THEN conjunct1]
        up3 [THEN conjunct2, THEN conjunct2]
        up4 [THEN conjunct1] up4 [THEN conjunct2, THEN conjunct1]
        up4 [THEN conjunct2, THEN conjunct2])
qed

subsection \<open>C5: a reply after the time to live\<close>

text \<open>
  C5, as stated, fails on the entry that is the only one in the cache. The handler
  lists the keys with \<^verbatim>\<open>cache.keys()\<close>, which still names an entry whose time to
  live has passed; \<^verbatim>\<open>cache.get\<close> then finds it stale, deletes it and returns
  nothing, and the handler answers that the transaction was not found or has expired.
  An amount posted at time 1000 and a reply at 3601001, one millisecond after the hour:
  the answer is not the nothing-pending text, and the cache, which held the entry, is
  empty afterwards.
\<close>

theorem expired_only_entry_example:
  "fst (webhook_transaction example_config all_up 1000 ''a'' (JNum 10000) []) =
     [(''txn_1000_a'', 3601000, pending 10000 1000)] \<and>
   on_text example_config all_up 3601001 42 ''Lunch''
       (fst (webhook_transaction example_config all_up 1000 ''a'' (JNum 10000) [])) =
     ([], [Reply NotFoundOrExpired])"
proof -
  have auth: "toString 42 = MY_CHAT_ID example_config"
    by (simp add: toString_42 example_config_def)
  have stored: "fst (webhook_transaction example_config all_up 1000 ''a'' (JNum 10000) []) =
     [(''txn_1000_a'', 3601000, pending 10000 1000)]"
    by (simp add: webhook_accepts cache_set_fresh cache_keys_def gen_id_example pending_def)
  have late: "stale 3601001 3601000" by (simp add: stale_def)
  have "on_text example_config all_up 3601001 42 ''Lunch''
       [(''txn_1000_a'', 3601000, pending 10000 1000)] = ([], [Reply NotFoundOrExpired])"
    using on_text_head_stale [OF auth late, of all_up "''Lunch''" "''txn_1000_a''"
        "pending 10000 1000" "[]"]
    by (simp add: cache_del_def all_up_def)
  with stored show ?thesis by (simp only: simp_thms)
qed

lemma in_cache_del:
  "e \<in> set (cache_del key c) \<longleftrightarrow> e \<in> set c \<and> fst e \<noteq> key"
  by (auto simp: cache_del_def)

lemma in_cache_get:
  "e \<in> set c \<Longrightarrow> fst e \<noteq> key \<Longrightarrow> e \<in> set (fst (cache_get now key c))"
  by (auto simp: cache_get_def in_cache_del split: option.splits)

lemma on_text_keeps_other_entries:
  assumes "e \<in> set c" and "fst e \<noteq> hd (cache_keys c)"
  shows "e \<in> set (fst (on_text cfg w now chat_id userReply c))"
proof (cases c)
  case Nil
  with assms show ?thesis by simp
next
  case (Cons h rest)
  then have head: "hd (cache_keys c) = fst h" by (simp add: cache_keys_def)
  have got: "e \<in> set (fst (cache_get now (fst h) c))"
    using assms head by (simp add: in_cache_get)
  then have gone: "e \<in> set (cache_del (fst h) (fst (cache_get now (fst h) c)))"
    using assms head by (simp add: in_cache_del)
  show ?thesis
    using assms(1) got gone Cons
    by (auto simp: on_text_def on_text_try_def cache_keys_def createNotionTransaction_def
        split: prod.splits option.splits bool.splits)
qed

text \<open>
  C5, amended: a pending entry stored at time \<open>t\<close> is not resolved into a ledger write
  by a reply later than \<open>t\<close> plus the hour. If it is the first entry the cache lists
  (so also if it is the only one), the reply is answered with the not-found-or-expired
  text, the handler makes no ledger call, and the entry is deleted from the cache; if
  another entry is listed first, the reply deals with that one and the stale entry
  stays stored. The nothing-pending text is the answer once the periodic check of the
  cache has removed the entry and no key is left.
\<close>

theorem expired_entry_not_resolved:
  assumes auth: "toString chat_id = MY_CHAT_ID cfg"
    and keys: "distinct (cache_keys c)"
    and entry: "(key, t + stdTTL * 1000, tx) \<in> set c"
    and clock: "0 \<le> t"
    and late: "t + stdTTL * 1000 < now"
  shows "(hd (cache_keys c) = key \<longrightarrow>
            on_text cfg w now chat_id userReply c =
              (cache_del key c,
               Reply NotFoundOrExpired #
                 (if reply_ok w NotFoundOrExpired then [] else [Reply SaveFailed]))) \<and>
         (c = [(key, t + stdTTL * 1000, tx)] \<longrightarrow>
            fst (on_text cfg w now chat_id userReply c) = []) \<and>
         (hd (cache_keys c) \<noteq> key \<longrightarrow>
            (key, t + stdTTL * 1000, tx) \<in> set (fst (on_text cfg w now chat_id userReply c))) \<and>
         on_text cfg w now chat_id userReply (checkData now [(key, t + stdTTL * 1000, tx)]) =
           ([], Reply NothingPending #
                  (if reply_ok w NothingPending then [] else [Reply SaveFailed]))"
proof -
  have stale: "stale now (t + stdTTL * 1000)"
    using clock late by (simp add: stale_def stdTTL_def)
  have head: "on_text cfg w now chat_id userReply c =
              (cache_del key c,
               Reply NotFoundOrExpired #
                 (if reply_ok w NotFoundOrExpired then [] else [Reply SaveFailed]))"
    if "hd (cache_keys c) = key"
  proof -
    from entry obtain h rest where c: "c = h # rest" by (cases c) auto
    with that have "fst h = key" by (simp add: cache_keys_def)
    moreover from keys c have "fst h \<notin> fst ` set rest" by (simp add: cache_keys_def)
    ultimately have "h = (key, t + stdTTL * 1000, tx)"
      using entry c by (cases h) force
    with c show ?thesis
      using on_text_head_stale [OF auth stale] by simp
  qed
  have only: "fst (on_text cfg w now chat_id userReply c) = []"
    if "c = [(key, t + stdTTL * 1000, tx)]"
    using head that by (simp add: cache_keys_def cache_del_def)
  have other: "(key, t + stdTTL * 1000, tx) \<in> set (fst (on_text cfg w now chat_id userReply c))"
    if "hd (cache_keys c) \<noteq> key"
    using entry that by (simp add: on_text_keeps_other_entries)
  have swept: "checkData now [(key, t + stdTTL * 1000, tx)] = []"
    using stale by (simp add: checkData_def)
  show ?thesis
    using head only other by (simp add: swept on_text_empty [OF auth])
qed

theorem expired_entry_not_resolved_witness:
  "toString 42 = MY_CHAT_ID example_config \<and>
   distinct (cache_keys [(''txn_1000_a'', 1000 + stdTTL * 1000, pending 10000 1000)]) \<and>
   (''txn_1000_a'', 1000 + stdTTL * 1000, pending 10000 1000)
     \<in> set [(''txn_1000_a'', 1000 + stdTTL * 1000, pending 10000 1000)] \<and>
   (0::int) \<le> 1000 \<and>
   1000 + stdTTL * 1000 < 3601001 \<and>
   hd (cache_keys [(''txn_1000_a'', 1000 + stdTTL * 1000, pending 10000 1000)]) = ''txn_1000_a'' \<and>
   on_text example_config all_up 3601001 42 ''Lunch''
       [(''txn_1000_a'', 1000 + stdTTL * 1000, pending 10000 1000)] =
     ([], [Reply NotFoundOrExpired]) \<and>
   on_text example_config all_up 3601001 42 ''Lunch''
       (checkData 3601001 [(''txn_1000_a'', 1000 + stdTTL * 1000, pending 10000 1000)]) =
     ([], [Reply NothingPending])"
proof -
  have auth: "toString 42 = MY_CHAT_ID example_config"
    by (simp add: toString_42 example_config_def)
  have keys: "distinct (cache_keys [(''txn_1000_a'', 1000 + stdTTL * 1000, pending 10000 1000)])"
    by (simp add: cache_keys_def)
  have entry: "(''txn_1000_a'', 1000 + stdTTL * 1000, pending 10000 1000)
     \<in> set [(''txn_1000_a'', 1000 + stdTTL * 1000, pending 10000 1000)]"
    by simp
  have clock: "(0::int) \<le> 1000" by simp
  have late: "1000 + stdTTL * 1000 < 3601001" by (simp add: stdTTL_def)
  have first: "hd (cache_keys [(''txn_1000_a'', 1000 + stdTTL * 1000, pending 10000 1000)]) =
      ''txn_1000_a''"
    by (simp add: cache_keys_def)
  note main = expired_entry_not_resolved [OF auth keys entry clock late, of all_up "''Lunch''"]
  have answered: "on_text example_config all_up 3601001 42 ''Lunch''
       [(''txn_1000_a'', 1000 + stdTTL * 1000, pending 10000 1000)] =
     ([], [Reply NotFoundOrExpired])"
    using main [THEN conjunct1] first by (simp add: cache_del_def all_up_def)
  have swept: "on_text example_config all_up 3601001 42 ''Lunch''
       (checkData 3601001 [(''txn_1000_a'', 1000 + stdTTL * 1000, pending 10000 1000)]) =
     ([], [Reply NothingPending])"
    using main [THEN conjunct2, THEN conjunct2, THEN conjunct2] by (simp add: all_up_def)
  show ?thesis
    by (intro conjI auth keys entry clock late first answered swept)
qed

subsection \<open>C8: a failed notification\<close>

text \<open>
  C8: \<^verbatim>\<open>cache.set\<close> runs before \<^verbatim>\<open>sendMessage\<close>. When the send throws, the
  webhook answers with status 500 and the cache is the one a successful send would
  have left: the new entry is stored under its id with its time to live. A later reply
  within that time resolves it; from an empty cache it is the entry the reply selects.
\<close>

theorem notification_failure_keeps_entry:
  assumes accepted: "truthy amount \<and> typeof amount = TNumber"
    and down: "\<not> sendMessage_ok w"
    and auth: "toString chat_id = MY_CHAT_ID cfg"
    and live: "\<not> stale now' (now + 3600000)"
    and up: "reply_ok w' Saving \<and> notion_ok w' \<and> reply_ok w' (Saved userReply amount)"
  shows "webhook_transaction cfg w now suffix amount c =
           (cache_set now (generateTransactionId now suffix)
              \<lparr>tx_amount = amount, tx_timestamp = now\<rparr> c,
            [SendMessage (MY_CHAT_ID cfg) (AskPurpose amount), Respond Status500]) \<and>
         map_of (fst (webhook_transaction cfg w now suffix amount c))
             (generateTransactionId now suffix) =
           Some (now + 3600000, \<lparr>tx_amount = amount, tx_timestamp = now\<rparr>) \<and>
         fst (webhook_transaction cfg w now suffix amount c) =
           fst (webhook_transaction cfg (w\<lparr>sendMessage_ok := True\<rparr>) now suffix amount c) \<and>
         on_text cfg w' now' chat_id userReply
             (fst (webhook_transaction cfg w now suffix amount [])) =
           ([], [Reply Saving, NotionCreate (build_properties cfg w' userReply amount),
                 Reply (Saved userReply amount)])"
proof -
  have stored: "webhook_transaction cfg w now suffix amount c =
           (cache_set now (generateTransactionId now suffix)
              \<lparr>tx_amount = amount, tx_timestamp = now\<rparr> c,
            [SendMessage (MY_CHAT_ID cfg) (AskPurpose amount), Respond Status500])" for c
    using accepted down by (simp add: webhook_accepts)
  have same: "fst (webhook_transaction cfg (w\<lparr>sendMessage_ok := True\<rparr>) now suffix amount c) =
           cache_set now (generateTransactionId now suffix)
              \<lparr>tx_amount = amount, tx_timestamp = now\<rparr> c"
    using accepted by (simp add: webhook_accepts)
  have resolved: "on_text cfg w' now' chat_id userReply
             [(generateTransactionId now suffix, now + 3600000,
               \<lparr>tx_amount = amount, tx_timestamp = now\<rparr>)] =
           ([], [Reply Saving, NotionCreate (build_properties cfg w' userReply amount),
                 Reply (Saved userReply amount)])"
    using on_text_resolves_head [OF auth live, of "generateTransactionId now suffix" "[]" w'
        userReply "\<lparr>tx_amount = amount, tx_timestamp = now\<rparr>"] up
    by (simp add: cache_keys_def)
  show ?thesis
    by (simp add: stored same map_of_cache_set cache_set_fresh cache_keys_def resolved)
qed

theorem notification_failure_keeps_entry_witness:
  "(truthy (JNum 50000) \<and> typeof (JNum 50000) = TNumber) \<and>
   \<not> sendMessage_ok telegram_down \<and>
   toString 42 = MY_CHAT_ID example_config \<and>
   \<not> stale 2000 (1000 + 3600000) \<and>
   (reply_ok all_up Saving \<and> notion_ok all_up \<and> reply_ok all_up (Saved ''Lunch'' (JNum 50000))) \<and>
   webhook_transaction example_config telegram_down 1000 ''a'' (JNum 50000) [] =
     ([(''txn_1000_a'', 3601000, pending 50000 1000)],
      [SendMessage ''42'' (AskPurpose (JNum 50000)), Respond Status500]) \<and>
   on_text example_config all_up 2000 42 ''Lunch''
       (fst (webhook_transaction example_config telegram_down 1000 ''a'' (JNum 50000) [])) =
     ([], [Reply Saving, NotionCreate (build_properties example_config all_up ''Lunch'' (JNum 50000)),
           Reply (Saved ''Lunch'' (JNum 50000))])"
proof -
  have accepted: "truthy (JNum 50000) \<and> typeof (JNum 50000) = TNumber" by simp
  have down: "\<not> sendMessage_ok telegram_down" by (simp add: telegram_down_def)
  have auth: "toString 42 = MY_CHAT_ID example_config"
    by (simp add: toString_42 example_config_def)
  have live: "\<not> stale 2000 (1000 + 3600000)" by (simp add: stale_def)
  have up: "reply_ok all_up Saving \<and> notion_ok all_up \<and>
      reply_ok all_up (Saved ''Lunch'' (JNum 50000))"
    by (simp add: all_up_def)
  note main = notification_failure_keeps_entry [OF accepted down auth live up, of "''a''" "[]"]
  have stored: "webhook_transaction example_config telegram_down 1000 ''a'' (JNum 50000) [] =
     ([(''txn_1000_a'', 3601000, pending 50000 1000)],
      [SendMessage ''42'' (AskPurpose (JNum 50000)), Respond Status500])"
    using main [THEN conjunct1]
    by (simp add: cache_set_fresh cache_keys_def gen_id_example pending_def example_config_def)
  show ?thesis
    by (intro conjI down auth live stored
        accepted [THEN conjunct1] accepted [THEN conjunct2]
        up [THEN conjunct1] up [THEN conjunct2, THEN conjunct1]
        up [THEN conjunct2, THEN conjunct2]
        main [THEN conjunct2, THEN conjunct2, THEN conjunct2])
qed

subsection \<open>C10: what a successful reply leaves in the cache\<close>

text \<open>
  The keys of the cache are the property names of an object, so no key is listed
  twice; every operation keeps it so.
\<close>

lemma distinct_cache_set: "distinct (cache_keys c) \<Longrightarrow> distinct (cache_keys (cache_set now key val c))"
  by (simp add: cache_keys_set)

lemma distinct_cache_del: "distinct (cache_keys c) \<Longrightarrow> distinct (cache_keys (cache_del key c))"
  by (simp add: cache_keys_del distinct_removeAll)

lemma distinct_cache_get: "distinct (cache_keys c) \<Longrightarrow> distinct (cache_keys (fst (cache_get now key c)))"
  by (auto simp: cache_get_def distinct_cache_del split: option.splits)

lemma distinct_checkData: "distinct (cache_keys c) \<Longrightarrow> distinct (cache_keys (checkData now c))"
  by (simp add: checkData_def cache_keys_def distinct_map_filter)

lemma distinct_webhook_transaction:
  "distinct (cache_keys c) \<Longrightarrow>
   distinct (cache_keys (fst (webhook_transaction cfg w now suffix amount c)))"
  by (simp add: webhook_transaction_def Let_def distinct_cache_set)

lemma distinct_on_text_try:
  "distinct (cache_keys c) \<Longrightarrow>
   distinct (cache_keys (fst (fst (on_text_try cfg w now userReply c))))"
  using distinct_cache_get [of c now "hd (cache_keys c)"]
  by (auto simp: on_text_try_def createNotionTransaction_def distinct_cache_del
      split: list.splits prod.splits option.splits bool.splits)

lemma distinct_on_text:
  "distinct (cache_keys c) \<Longrightarrow>
   distinct (cache_keys (fst (on_text cfg w now chat_id userReply c)))"
  using distinct_on_text_try [of c cfg w now userReply]
  by (auto simp: on_text_def split: prod.splits bool.splits)



subsection \<open>C7: the sensor's window\<close>

text \<open>
  A notification of the bank's app whose text holds an amount runs the window check
  on that amount; every other notification leaves the history alone and sends nothing.
\<close>

lemma onNotificationPosted_amount:
  "packageName n = JAGO_PACKAGE \<Longrightarrow> extractAmount (android_text n) = Some a \<Longrightarrow>
   onNotificationPosted now (Some n) ps = handleAmount now a ps"
  by (simp add: onNotificationPosted_def)

lemma onNotificationPosted_ignored:
  "packageName n \<noteq> JAGO_PACKAGE \<or> extractAmount (android_text n) = None \<Longrightarrow>
   onNotificationPosted now (Some n) ps = (ps, None)"
  by (auto simp: onNotificationPosted_def)

text \<open>
  The window check does not look into the amounts: a run on finite doubles is the same
  run on the rationals they denote.
\<close>

lemma handleAmount_relabel:
  assumes "inj f"
  shows "handleAmount now (f a) (map (\<lambda>(time, x). (time, f x)) ps) =
     (map (\<lambda>(time, x). (time, f x)) (fst (handleAmount now a ps)),
      map_option f (snd (handleAmount now a ps)))"
proof -
  have keep: "filter (\<lambda>(time, _). \<not> (DEBOUNCE_TIME <s now - time))
                (map (\<lambda>(time, x). (time, f x)) ps) =
              map (\<lambda>(time, x). (time, f x))
                (filter (\<lambda>(time, _). \<not> (DEBOUNCE_TIME <s now - time)) ps)"
    by (induction ps) auto
  have found: "list_ex (\<lambda>(_, storedAmount). storedAmount = f a)
                 (map (\<lambda>(time, x). (time, f x)) qs) =
               list_ex (\<lambda>(_, storedAmount). storedAmount = a) qs" for qs
    using assms by (induction qs) (auto simp: inj_eq)
  show ?thesis
    by (simp add: handleAmount_def Let_def keep found)
qed

lemma handleAmount_Finite:
  "handleAmount now (Finite a) (map (\<lambda>(time, x). (time, Finite x)) ps) =
     (map (\<lambda>(time, x). (time, Finite x)) (fst (handleAmount now a ps)),
      map_option Finite (snd (handleAmount now a ps)))"
  by (rule handleAmount_relabel) (simp add: inj_def)

lemma same_amount_append:
  "same_amount a (ps @ qs) = same_amount a ps @ same_amount a qs"
  by (simp add: same_amount_def)

lemma same_amount_filter:
  "same_amount a (filter P ps) = filter P (same_amount a ps)"
  by (induction ps) (auto simp: same_amount_def)

lemma list_ex_same_amount:
  "list_ex (\<lambda>(_, storedAmount). storedAmount = a) ps \<longleftrightarrow> same_amount a ps \<noteq> []"
  by (induction ps) (auto simp: same_amount_def)

text \<open>
  One observation of an amount: it is sent on exactly when no entry with that amount
  is left after pruning, and then it is the only entry with that amount.
\<close>

lemma handleAmount_sent:
  "snd (handleAmount now a ps) =
     (if filter (\<lambda>(time, _). \<not> (DEBOUNCE_TIME <s now - time)) (same_amount a ps) = []
      then Some a else None)"
  by (simp add: handleAmount_def Let_def list_ex_same_amount same_amount_filter)

lemma handleAmount_same_amount:
  "same_amount a (fst (handleAmount now a ps)) =
     (if filter (\<lambda>(time, _). \<not> (DEBOUNCE_TIME <s now - time)) (same_amount a ps) = []
      then [(now, a)]
      else filter (\<lambda>(time, _). \<not> (DEBOUNCE_TIME <s now - time)) (same_amount a ps))"
  by (simp add: handleAmount_def Let_def list_ex_same_amount same_amount_filter
      same_amount_append)
    (simp add: same_amount_def)

lemma quiet_history:
  assumes "\<forall>(time, storedAmount) \<in> set ps. storedAmount = a \<longrightarrow> DEBOUNCE_TIME <s now - time"
  shows "filter (\<lambda>(time, _). \<not> (DEBOUNCE_TIME <s now - time)) (same_amount a ps) = []"
  using assms by (auto simp: same_amount_def filter_empty_conv)

lemma within_window: "0 \<le>s d \<Longrightarrow> d \<le>s 5000 \<Longrightarrow> \<not> (DEBOUNCE_TIME <s (t + d) - t)"
  by (simp add: DEBOUNCE_TIME_def word_sless_alt word_sle_eq)

lemma beyond_window: "DEBOUNCE_TIME <s (t + 5001) - t"
  by (simp add: DEBOUNCE_TIME_def word_sless_alt)

text \<open>
  C7: the history holds no entry with amount \<open>a\<close> that is still inside the window at
  time \<open>t\<close> (a fresh service has an empty history). Of four observations of \<open>a\<close> at
  \<open>t\<close>, \<open>t + 1\<close>, \<open>t + 4999\<close> and \<open>t + 5001\<close>, the first and the last are sent to the
  server and the two in between are not. After each of the first three the only entry
  with amount \<open>a\<close> is the one of time \<open>t\<close>: the duplicates were not recorded. At
  \<open>t + 5001\<close> that entry is 5001 ms old and is removed before the history is searched,
  so only the new entry is left. The times are 64-bit and the statement holds for
  every \<open>t\<close>, also where \<open>t + 5001\<close> wraps.
\<close>

theorem dedup_window_sequence:
  assumes quiet:
    "\<forall>(time, storedAmount) \<in> set ps. storedAmount = a \<longrightarrow> DEBOUNCE_TIME <s t - time"
  shows "(let r1 = handleAmount t a ps;
              r2 = handleAmount (t + 1) a (fst r1);
              r3 = handleAmount (t + 4999) a (fst r2);
              r4 = handleAmount (t + 5001) a (fst r3)
          in snd r1 = Some a \<and> snd r2 = None \<and> snd r3 = None \<and> snd r4 = Some a \<and>
             same_amount a (fst r1) = [(t, a)] \<and>
             same_amount a (fst r2) = [(t, a)] \<and>
             same_amount a (fst r3) = [(t, a)] \<and>
             same_amount a (fst r4) = [(t + 5001, a)])"
proof -
  define r1 where "r1 = handleAmount t a ps"
  define r2 where "r2 = handleAmount (t + 1) a (fst r1)"
  define r3 where "r3 = handleAmount (t + 4999) a (fst r2)"
  define r4 where "r4 = handleAmount (t + 5001) a (fst r3)"
  have k1: "\<not> (DEBOUNCE_TIME <s (t + 1) - t)"
    by (rule within_window) (simp_all add: word_sle_eq)
  have k4999: "\<not> (DEBOUNCE_TIME <s (t + 4999) - t)"
    by (rule within_window) (simp_all add: word_sle_eq)
  have s1: "snd r1 = Some a" and h1: "same_amount a (fst r1) = [(t, a)]"
    unfolding r1_def
    by (simp_all add: handleAmount_sent handleAmount_same_amount quiet_history [OF quiet])
  have s2: "snd r2 = None" and h2: "same_amount a (fst r2) = [(t, a)]"
    unfolding r2_def using k1
    by (simp_all add: handleAmount_sent handleAmount_same_amount h1)
  have s3: "snd r3 = None" and h3: "same_amount a (fst r3) = [(t, a)]"
    unfolding r3_def using k4999
    by (simp_all add: handleAmount_sent handleAmount_same_amount h2)
  have s4: "snd r4 = Some a" and h4: "same_amount a (fst r4) = [(t + 5001, a)]"
    unfolding r4_def using beyond_window [of t]
    by (simp_all add: handleAmount_sent handleAmount_same_amount h3)
  show ?thesis
    using s1 s2 s3 s4 h1 h2 h3 h4
    unfolding r1_def r2_def r3_def r4_def Let_def by (intro conjI)
qed

theorem dedup_window_sequence_witness:
  "handleAmount 100000 (10000::rat) [(1000, 10000), (99000, 2500)] =
     ([(99000, 2500), (100000, 10000)], Some 10000) \<and>
   handleAmount (100000 + 1) (10000::rat) [(99000, 2500), (100000, 10000)] =
     ([(99000, 2500), (100000, 10000)], None) \<and>
   handleAmount (100000 + 4999) (10000::rat) [(99000, 2500), (100000, 10000)] =
     ([(100000, 10000)], None) \<and>
   handleAmount (100000 + 5001) (10000::rat) [(100000, 10000)] = ([(105001, 10000)], Some 10000) \<and>
   (let r1 = handleAmount 100000 (10000::rat) [(1000, 10000), (99000, 2500)];
        r2 = handleAmount (100000 + 1) 10000 (fst r1);
        r3 = handleAmount (100000 + 4999) 10000 (fst r2);
        r4 = handleAmount (100000 + 5001) 10000 (fst r3)
    in snd r1 = Some 10000 \<and> snd r2 = None \<and> snd r3 = None \<and> snd r4 = Some 10000 \<and>
       same_amount 10000 (fst r1) = [(100000, 10000)] \<and>
       same_amount 10000 (fst r2) = [(100000, 10000)] \<and>
       same_amount 10000 (fst r3) = [(100000, 10000)] \<and>
       same_amount 10000 (fst r4) = [(100000 + 5001, 10000)])"
proof -
  have quiet: "\<forall>(time, storedAmount) \<in> set [(1000, 10000), (99000, 2500)].
       storedAmount = (10000::rat) \<longrightarrow> DEBOUNCE_TIME <s (100000::long) - time"
    by (simp add: DEBOUNCE_TIME_def word_sless_alt)
  have r1: "handleAmount 100000 (10000::rat) [(1000, 10000), (99000, 2500)] =
     ([(99000, 2500), (100000, 10000)], Some 10000)"
    by (simp add: handleAmount_def DEBOUNCE_TIME_def word_sless_alt)
  have r2: "handleAmount (100000 + 1) (10000::rat) [(99000, 2500), (100000, 10000)] =
     ([(99000, 2500), (100000, 10000)], None)"
    by (simp add: handleAmount_def DEBOUNCE_TIME_def word_sless_alt)
  have r3: "handleAmount (100000 + 4999) (10000::rat) [(99000, 2500), (100000, 10000)] =
     ([(100000, 10000)], None)"
    by (simp add: handleAmount_def DEBOUNCE_TIME_def word_sless_alt)
  have r4: "handleAmount (100000 + 5001) (10000::rat) [(100000, 10000)] = ([(105001, 10000)], Some 10000)"
    by (simp add: handleAmount_def DEBOUNCE_TIME_def word_sless_alt)
  show ?thesis
    by (intro conjI r1 r2 r3 r4 dedup_window_sequence [OF quiet])
qed

subsection \<open>C3: the same amount twice\<close>

text \<open>
  C3, as stated, fails for submissions to the server: the webhook has no
  deduplication. The amount 10000 posted twice, 50 ms apart, leaves two pending
  entries and sends the question to the chat twice.
\<close>

theorem webhook_stores_duplicates_example:
  "webhook_transaction example_config all_up 1000 ''a'' (JNum 10000) [] =
     ([(''txn_1000_a'', 3601000, pending 10000 1000)],
      [SendMessage ''42'' (AskPurpose (JNum 10000)), Respond (Status200 ''txn_1000_a'')]) \<and>
   webhook_transaction example_config all_up 1050 ''b'' (JNum 10000)
       [(''txn_1000_a'', 3601000, pending 10000 1000)] =
     ([(''txn_1000_a'', 3601000, pending 10000 1000),
       (''txn_1050_b'', 3601050, pending 10000 1050)],
      [SendMessage ''42'' (AskPurpose (JNum 10000)), Respond (Status200 ''txn_1050_b'')])"
proof -
  have id2: "generateTransactionId 1050 ''b'' = ''txn_1050_b''"
    by (simp add: generateTransactionId_def toString_def nat_toString.simps digit_char_def)
  show ?thesis
    by (simp add: webhook_accepts cache_set_fresh cache_keys_def gen_id_example id2 pending_def
        example_config_def all_up_def)
qed

text \<open>
  C3, amended: the suppression is the sensor's. When the same amount reaches the
  sensor twice within 100 ms, the first time with no entry of that amount inside the
  window, the sensor calls \<^verbatim>\<open>sendToServer\<close> for the first and returns without a
  call for the second. With the request delivered, the first stores one pending entry
  (under an id the cache does not hold yet) and makes one \<^verbatim>\<open>sendMessage\<close> call; the
  second reaches the server not at all, so the cache is not touched and nothing is
  sent. The webhook itself stores and announces every amount it accepts.
\<close>

theorem duplicate_dropped_by_sensor:
  assumes quiet:
    "\<forall>(time, storedAmount) \<in> set ps. storedAmount = a \<longrightarrow> DEBOUNCE_TIME <s t - time"
    and within: "0 \<le>s d \<and> d \<le>s 100"
    and nonzero: "a \<noteq> 0"
    and fresh: "generateTransactionId now suffix \<notin> set (cache_keys c)"
  shows "(let r1 = handleAmount t a ps;
              r2 = handleAmount (t + d) a (fst r1);
              s1 = sendToServer cfg w now suffix (snd r1) c;
              s2 = sendToServer cfg w' now' suffix' (snd r2) (fst s1)
          in snd r1 = Some a \<and> snd r2 = None \<and>
             fst s1 = c @ [(generateTransactionId now suffix, now + 3600000,
                            \<lparr>tx_amount = JNum a, tx_timestamp = now\<rparr>)] \<and>
             snd s1 = [SendMessage (MY_CHAT_ID cfg) (AskPurpose (JNum a)),
                       Respond (if sendMessage_ok w
                                then Status200 (generateTransactionId now suffix)
                                else Status500)] \<and>
             s2 = (fst s1, []))"
proof -
  define r1 where "r1 = handleAmount t a ps"
  define r2 where "r2 = handleAmount (t + d) a (fst r1)"
  have inside: "\<not> (DEBOUNCE_TIME <s (t + d) - t)"
    using within by (intro within_window) (auto simp: word_sle_eq)
  have sent1: "snd r1 = Some a" and h1: "same_amount a (fst r1) = [(t, a)]"
    unfolding r1_def
    by (simp_all add: handleAmount_sent handleAmount_same_amount quiet_history [OF quiet])
  have sent2: "snd r2 = None"
    unfolding r2_def using inside by (simp add: handleAmount_sent h1)
  have posted: "sendToServer cfg w now suffix (Some a) c =
      (c @ [(generateTransactionId now suffix, now + 3600000,
             \<lparr>tx_amount = JNum a, tx_timestamp = now\<rparr>)],
       [SendMessage (MY_CHAT_ID cfg) (AskPurpose (JNum a)),
        Respond (if sendMessage_ok w then Status200 (generateTransactionId now suffix)
                 else Status500)])"
    using nonzero fresh by (simp add: sendToServer_def webhook_accepts cache_set_fresh)
  have dropped: "sendToServer cfg w' now' suffix' None c' = (c', [])" for c'
    by (simp add: sendToServer_def)
  show ?thesis
    using sent1 sent2
    unfolding r1_def r2_def Let_def
    by (simp add: posted dropped)
qed

theorem duplicate_dropped_by_sensor_witness:
  "((0::long) \<le>s 60 \<and> (60::long) \<le>s 100) \<and>
   (10000::rat) \<noteq> 0 \<and>
   generateTransactionId 1000 ''a'' \<notin> set (cache_keys []) \<and>
   (let r1 = handleAmount 100000 10000 [(1000, 10000), (99000, 2500)];
        r2 = handleAmount (100000 + 60) 10000 (fst r1);
        s1 = sendToServer example_config all_up 1000 ''a'' (snd r1) [];
        s2 = sendToServer example_config all_up 1060 ''b'' (snd r2) (fst s1)
    in snd r1 = Some 10000 \<and> snd r2 = None \<and>
       fst s1 = [] @ [(generateTransactionId 1000 ''a'', 1000 + 3600000,
                       \<lparr>tx_amount = JNum 10000, tx_timestamp = 1000\<rparr>)] \<and>
       snd s1 = [SendMessage (MY_CHAT_ID example_config) (AskPurpose (JNum 10000)),
                 Respond (if sendMessage_ok all_up
                          then Status200 (generateTransactionId 1000 ''a'')
                          else Status500)] \<and>
       s2 = (fst s1, []))"
proof -
  have quiet: "\<forall>(time, storedAmount) \<in> set [(1000, 10000), (99000, 2500)].
       storedAmount = (10000::rat) \<longrightarrow> DEBOUNCE_TIME <s (100000::long) - time"
    by (simp add: DEBOUNCE_TIME_def word_sless_alt)
  have within: "(0::long) \<le>s 60 \<and> (60::long) \<le>s 100"
    by (simp add: word_sle_eq)
  have nonzero: "(10000::rat) \<noteq> 0" by simp
  have fresh: "generateTransactionId 1000 ''a'' \<notin> set (cache_keys [])"
    by (simp add: cache_keys_def)
  show ?thesis
    by (intro conjI nonzero fresh within [THEN conjunct1] within [THEN conjunct2]
        duplicate_dropped_by_sensor [OF quiet within nonzero fresh])
qed

subsection \<open>C9: extracting the amount\<close>

















lemma bits_power: "bits (2 ^ k) = Suc k"
proof (induction k)
  case 0
  then show ?case by (simp add: bits.simps [of "Suc 0"] bits.simps [of 0])
next
  case (Suc k)
  then show ?case by (simp add: bits.simps [of "2 * 2 ^ k"])
qed

text \<open>From \<open>2 ^ 1024\<close> on a power of two is read as infinity.\<close>

lemma to_double_overflow:
  assumes big: "1024 \<le> k"
  shows "to_double (2 ^ k) = PosInfinity"
proof -
  define e where "e = k - 52"
  from big have k: "k = 52 + e" by (simp add: e_def)
  have e: "bits (2 ^ k) - 53 = e"
    by (simp add: bits_power k)
  have split: "(2::nat) ^ k = 2 ^ 52 * 2 ^ e"
    by (simp only: k power_add)
  have q: "(2::nat) ^ k div 2 ^ e = 2 ^ 52" and r: "(2::nat) ^ k mod 2 ^ e = 0"
    by (simp_all only: split div_mult_self_is_m mod_mult_self2_is_0 zero_less_power
        zero_less_numeral)
  have m: "(if (2::nat) ^ e < 2 * 0 \<or> (2 * 0 = (2::nat) ^ e \<and> odd ((2::nat) ^ 52))
           then (2::nat) ^ 52 + 1 else 2 ^ 52) = 2 ^ 52"
  proof -
    have "\<not> ((2::nat) ^ e < 2 * 0 \<or> (2 * 0 = (2::nat) ^ e \<and> odd ((2::nat) ^ 52)))"
      by (simp del: power_numeral)
    then show ?thesis by (simp only: if_False)
  qed
  have over: "(2::nat) ^ 1024 \<le> 2 ^ 52 * 2 ^ e"
    unfolding split [symmetric] using big by (rule power_increasing) simp
  show ?thesis
    unfolding to_double_def Let_def e q r m using over by (simp only: if_True)
qed




end
